theory Spec2Isabelle
  imports Complex_Main "HOL-Library.Multiset"
begin

section \<open>JavaScript values, errors and configuration\<close>

text \<open>
  Amounts are JavaScript Numbers. The model takes a finite Number to be an exact rational
  (the rounding error of IEEE-754 doubles is outside the model, and so are the two
  infinities) and keeps \<open>NaN\<close> as a value of its own, because the source produces it.
  \<open>Other\<close> stands for every value that is neither \<open>undefined\<close>, a string nor a
  number (null, booleans, objects).
\<close>

datatype jsnum = Num rat | NaN

datatype jsval = Undefined | Str string | Number jsnum | Other

text \<open>\<open>Math.round\<close>: the nearest integer, a tie going up.\<close>

definition Math_round :: "rat \<Rightarrow> int" where
  "Math_round x = \<lfloor>x + 1 / 2\<rfloor>"

text \<open>\<open>x + n\<close> where \<open>x\<close> is a property read (\<open>None\<close> is \<open>undefined\<close>) and \<open>n\<close> a number.\<close>

definition js_plus :: "rat option \<Rightarrow> rat \<Rightarrow> jsnum" where
  "js_plus x n = (case x of None \<Rightarrow> NaN | Some a \<Rightarrow> Num (a + n))"

text \<open>\<open>x < m\<close>: every comparison with \<open>NaN\<close> is false.\<close>

definition js_less :: "jsnum \<Rightarrow> rat \<Rightarrow> bool" where
  "js_less x m = (case x of NaN \<Rightarrow> False | Num a \<Rightarrow> a < m)"

text \<open>\<open>Array.prototype.includes\<close> on an array of strings.\<close>

definition js_includes :: "string list \<Rightarrow> jsval \<Rightarrow> bool" where
  "js_includes xs v = (case v of Str s \<Rightarrow> s \<in> set xs | _ \<Rightarrow> False)"

text \<open>\<open>String.prototype.toUpperCase\<close> on ASCII letters.\<close>

definition upper_char :: "char \<Rightarrow> char" where
  "upper_char c =
     (let n = (of_char c :: nat) in if 97 \<le> n \<and> n \<le> 122 then char_of (n - 32) else c)"

definition toUpperCase :: "string \<Rightarrow> string" where
  "toUpperCase s = map upper_char s"

text \<open>\<open>toString\<close> of an identifier (identifiers are natural numbers here, printed in decimal).\<close>

function toString :: "nat \<Rightarrow> string" where
  "toString n =
     (if n < 10 then [char_of (48 + n)] else toString (n div 10) @ [char_of (48 + n mod 10)])"
  by pat_completeness auto
termination
  by (relation "measure (\<lambda>n. n)") auto

declare toString.simps [simp del]

text \<open>
  \<open>HandledError(message, code)\<close> has \<open>handled = true\<close>; every other exception (a
  \<open>TypeError\<close>, an error of the storage layer) has not.
\<close>

datatype error = HandledError string nat | TypeError | StorageError

fun handled :: "error \<Rightarrow> bool" where
  "handled (HandledError m c) = True"
| "handled TypeError = False"
| "handled StorageError = False"

fun message :: "error \<Rightarrow> string" where
  "message (HandledError m c) = m"
| "message TypeError = ''TypeError''"
| "message StorageError = ''StorageError''"

definition TRANSACTION_TYPES :: "string list" where
  "TRANSACTION_TYPES = [''debit'', ''withdrawal'']"

definition TRANSACTION_DEBIT_SUBTYPES :: "string list" where
  "TRANSACTION_DEBIT_SUBTYPES = [''credit'', ''refund'', ''interest'', ''cashback'']"

definition TRANSACTION_WITHDRAWAL_SUBTYPES :: "string list" where
  "TRANSACTION_WITHDRAWAL_SUBTYPES = [''purchase'', ''fee'', ''transfer'']"

definition CASHBACK_VENDERS :: "string list" where
  "CASHBACK_VENDERS = [''WLMRT'', ''AMZN'', ''APPL'']"

definition FIVE_DAYS :: int where
  "FIVE_DAYS = 5 * 24 * 60 * 60 * 1000"

text \<open>The three constants read from the environment, with the defaults of the source.\<close>

record config =
  CASHBACK_RATE :: rat
  INTEREST_RATE :: rat
  MAX_NEGATIVE_BALANCE :: rat

definition default_config :: config where
  "default_config =
     \<lparr>CASHBACK_RATE = 1 / 100, INTEREST_RATE = 1 / 100, MAX_NEGATIVE_BALANCE = - 100\<rparr>"

section \<open>Documents and the store\<close>

text \<open>
  Object identifiers are natural numbers (always truthy, so the \<open>!x._id\<close> guards of the
  source never fire), dates are milliseconds.
\<close>

record transaction =
  tx_id :: nat
  date :: int
  ttype :: string
  subtype :: string
  amount :: rat
  status :: string
  vender :: string
  description :: "string option"
  debitCard_ref :: nat
  user_ref :: nat

record debitCard =
  card_id :: nat
  accountNumber :: string
  active :: bool
  lastOverdraftFee :: "int option"
  card_user :: nat

datatype log_entry = LogInfo string "nat option" | LogError string "nat option"

text \<open>
  The world: the two collections in insertion order, the supply of fresh identifiers and
  what the logger was given.
\<close>

record world =
  transactions :: "transaction list"
  debitCards :: "debitCard list"
  next_id :: nat
  logged :: "log_entry list"

text \<open>
  Which writes of the storage layer throw (a lost connection, a document the schema
  rejects), by the identifier of the document written. Reads do not fail.
\<close>

record faults =
  save_fails :: "nat \<Rightarrow> bool"
  updateOne_fails :: "nat \<Rightarrow> bool"
  card_save_fails :: "nat \<Rightarrow> bool"

definition no_faults :: faults where
  "no_faults = \<lparr>save_fails = (\<lambda>i. False), updateOne_fails = (\<lambda>i. False),
     card_save_fails = (\<lambda>i. False)\<rparr>"

definition logger_info :: "string \<Rightarrow> nat option \<Rightarrow> world \<Rightarrow> world" where
  "logger_info m d w = w\<lparr>logged := logged w @ [LogInfo m d]\<rparr>"

definition logger_error :: "string \<Rightarrow> nat option \<Rightarrow> world \<Rightarrow> world" where
  "logger_error m d w = w\<lparr>logged := logged w @ [LogError m d]\<rparr>"

text \<open>
  The \<open>catch\<close> block shared by the model methods: a handled error is logged at level
  info and thrown again, any other is logged at level error and replaced by a generic
  \<open>HandledError\<close> with code 500.
\<close>

definition catch_rethrow ::
  "string \<Rightarrow> string \<Rightarrow> string \<Rightarrow> nat option \<Rightarrow> (error + 'a) \<times> world \<Rightarrow> (error + 'a) \<times> world" where
  "catch_rethrow info_prefix error_msg thrown_msg d r =
     (case r of
        (Inr v, w) \<Rightarrow> (Inr v, w)
      | (Inl e, w) \<Rightarrow>
          if handled e then (Inl e, logger_info (info_prefix @ message e) d w)
          else (Inl (HandledError thrown_msg 500), logger_error error_msg d w))"

definition findOne_card_by_id :: "world \<Rightarrow> nat \<Rightarrow> debitCard option" where
  "findOne_card_by_id w i = find (\<lambda>c. card_id c = i) (debitCards w)"

definition findOne_card_by_accountNumber :: "world \<Rightarrow> string \<Rightarrow> debitCard option" where
  "findOne_card_by_accountNumber w a = find (\<lambda>c. accountNumber c = a) (debitCards w)"

definition findOne_tx :: "world \<Rightarrow> nat \<Rightarrow> transaction option" where
  "findOne_tx w i = find (\<lambda>t. tx_id t = i) (transactions w)"

text \<open>\<open>updateOne({ _id }, { $set: { status } })\<close>: the first document with that id.\<close>

fun set_status :: "nat \<Rightarrow> string \<Rightarrow> transaction list \<Rightarrow> transaction list" where
  "set_status i s [] = []"
| "set_status i s (t # ts) =
     (if tx_id t = i then t\<lparr>status := s\<rparr> # ts else t # set_status i s ts)"

text \<open>
  \<open>save\<close> of a transaction document. A document made by \<open>new Transaction(...)\<close> is
  inserted; a document that was loaded is updated, and the only field the source changes on
  a loaded transaction is \<open>status\<close>.
\<close>

definition save_new :: "faults \<Rightarrow> transaction \<Rightarrow> world \<Rightarrow> (error + unit) \<times> world" where
  "save_new F t w =
     (if save_fails F (tx_id t) then (Inl StorageError, w)
      else (Inr (), w\<lparr>transactions := transactions w @ [t]\<rparr>))"

definition save_status :: "faults \<Rightarrow> transaction \<Rightarrow> world \<Rightarrow> (error + unit) \<times> world" where
  "save_status F t w =
     (if save_fails F (tx_id t) then (Inl StorageError, w)
      else (Inr (), w\<lparr>transactions := set_status (tx_id t) (status t) (transactions w)\<rparr>))"

definition updateOne_status :: "faults \<Rightarrow> nat \<Rightarrow> string \<Rightarrow> world \<Rightarrow> (error + unit) \<times> world" where
  "updateOne_status F i s w =
     (if updateOne_fails F i then (Inl StorageError, w)
      else (Inr (), w\<lparr>transactions := set_status i s (transactions w)\<rparr>))"

text \<open>\<open>save\<close> of a loaded debit card whose \<open>lastOverdraftFee\<close> was assigned.\<close>

fun set_lastOverdraftFee :: "nat \<Rightarrow> int \<Rightarrow> debitCard list \<Rightarrow> debitCard list" where
  "set_lastOverdraftFee i d [] = []"
| "set_lastOverdraftFee i d (c # cs) =
     (if card_id c = i then c\<lparr>lastOverdraftFee := Some d\<rparr> # cs
      else c # set_lastOverdraftFee i d cs)"

definition save_card :: "faults \<Rightarrow> debitCard \<Rightarrow> int \<Rightarrow> world \<Rightarrow> (error + unit) \<times> world" where
  "save_card F c d w =
     (if card_save_fails F (card_id c) then (Inl StorageError, w)
      else (Inr (), w\<lparr>debitCards := set_lastOverdraftFee (card_id c) d (debitCards w)\<rparr>))"

section \<open>DebitCard.methods.getBalances\<close>

record totals =
  completed :: rat
  pending :: rat

record balances =
  currentBalance :: rat
  pendingBalance :: rat
  finalBalance :: rat

text \<open>
  The aggregation pipeline: \<open>$match\<close> on the card, \<open>$group\<close> with \<open>_id: null\<close> and two
  conditional sums. A \<open>$group\<close> over no document yields no document.
\<close>

definition aggregate_totals :: "transaction list \<Rightarrow> nat \<Rightarrow> totals list" where
  "aggregate_totals txs cid =
     (let docs = filter (\<lambda>t. debitCard_ref t = cid) txs in
      if docs = [] then []
      else [\<lparr>completed = sum_list (map (\<lambda>t. if status t = ''completed'' then amount t else 0) docs),
             pending = sum_list (map (\<lambda>t. if status t = ''pending'' then amount t else 0) docs)\<rparr>])"

text \<open>\<open>totals[0].completed\<close> on an empty array is a \<open>TypeError\<close>; the \<open>catch\<close> block logs it
  and throws \<open>HandledError('Error getting debit card balances', 500)\<close>.\<close>

definition getBalances :: "world \<Rightarrow> debitCard \<Rightarrow> (error + balances) \<times> world" where
  "getBalances w dc =
     (case aggregate_totals (transactions w) (card_id dc) of
        [] \<Rightarrow> (Inl (HandledError ''Error getting debit card balances'' 500),
               logger_error ''Error getting debit card balances'' (Some (card_id dc)) w)
      | t # ts \<Rightarrow> (Inr \<lparr>currentBalance = completed t, pendingBalance = pending t,
                        finalBalance = completed t + pending t\<rparr>, w))"

section \<open>Transaction.statics.create\<close>

text \<open>The \<open>debitCard\<close> argument: a loaded document, an object id, or anything else.\<close>

datatype card_arg = CardDoc debitCard | CardId nat | CardAbsent

record create_params =
  p_type :: jsval
  p_subtype :: jsval
  p_amount :: jsval
  p_vender :: jsval
  p_description :: jsval
  p_accountNumber :: jsval
  p_debitCard :: card_arg
  p_skipSave :: bool

text \<open>
  \<open>typeof amount !== 'number' || amount <= 0 || Math.round(amount * 100) / 100 !== amount\<close>.
  For \<open>NaN\<close> the comparison \<open>NaN <= 0\<close> is false and \<open>NaN !== NaN\<close> is true.
\<close>

definition invalid_debit_amount :: "jsval \<Rightarrow> bool" where
  "invalid_debit_amount v =
     (case v of
        Number (Num a) \<Rightarrow> a \<le> 0 \<or> of_int (Math_round (a * 100)) / 100 \<noteq> a
      | Number NaN \<Rightarrow> True
      | _ \<Rightarrow> True)"

definition invalid_withdrawal_amount :: "jsval \<Rightarrow> bool" where
  "invalid_withdrawal_amount v =
     (case v of
        Number (Num a) \<Rightarrow> a \<ge> 0 \<or> of_int (Math_round (a * 100)) / 100 \<noteq> a
      | Number NaN \<Rightarrow> True
      | _ \<Rightarrow> True)"

definition is_string :: "jsval \<Rightarrow> bool" where
  "is_string v = (case v of Str s \<Rightarrow> True | _ \<Rightarrow> False)"

definition str_of :: "jsval \<Rightarrow> string" where
  "str_of v = (case v of Str s \<Rightarrow> s | _ \<Rightarrow> [])"

definition num_of :: "jsval \<Rightarrow> rat" where
  "num_of v = (case v of Number (Num a) \<Rightarrow> a | _ \<Rightarrow> 0)"

text \<open>The parameter checks, in the order of the source.\<close>

definition validate_amount :: "create_params \<Rightarrow> error option" where
  "validate_amount p =
     (if p_type p = Str ''debit'' then
        (if \<not> js_includes TRANSACTION_DEBIT_SUBTYPES (p_subtype p)
         then Some (HandledError ''Valid debit transaction subtype required'' 400)
         else if invalid_debit_amount (p_amount p)
         then Some (HandledError ''Debit transaction amount required as a positive number with no more than 2 decimal places'' 400)
         else None)
      else
        (if \<not> js_includes TRANSACTION_WITHDRAWAL_SUBTYPES (p_subtype p)
         then Some (HandledError ''Valid withdrawal transaction subtype required'' 400)
         else if invalid_withdrawal_amount (p_amount p)
         then Some (HandledError ''Withdrawal transaction amount required as a negative number with no more than 2 decimal places'' 400)
         else None))"

definition validate_create :: "create_params \<Rightarrow> error option" where
  "validate_create p =
     (if \<not> js_includes TRANSACTION_TYPES (p_type p)
      then Some (HandledError ''Valid transaction type required'' 400)
      else
        (case validate_amount p of
           Some e \<Rightarrow> Some e
         | None \<Rightarrow>
             if \<not> is_string (p_vender p)
             then Some (HandledError ''Vender required as a string'' 400)
             else if p_description p \<noteq> Undefined \<and> \<not> is_string (p_description p)
             then Some (HandledError ''Transaction description must be a string'' 400)
             else None))"

text \<open>The card: the document passed in, else looked up by id, else by account number.\<close>

definition resolve_card :: "world \<Rightarrow> create_params \<Rightarrow> error + debitCard option" where
  "resolve_card w p =
     (case p_debitCard p of
        CardDoc c \<Rightarrow> Inr (Some c)
      | CardId i \<Rightarrow> Inr (findOne_card_by_id w i)
      | CardAbsent \<Rightarrow>
          (case p_accountNumber p of
             Str a \<Rightarrow> Inr (findOne_card_by_accountNumber w a)
           | _ \<Rightarrow> Inl (HandledError ''Account number required as a string if valid debitCard or id is not provided'' 400)))"

definition new_transaction :: "int \<Rightarrow> world \<Rightarrow> create_params \<Rightarrow> debitCard \<Rightarrow> transaction" where
  "new_transaction now w p c =
     \<lparr>tx_id = next_id w, date = now, ttype = str_of (p_type p), subtype = str_of (p_subtype p),
      amount = num_of (p_amount p), status = ''pending'', vender = str_of (p_vender p),
      description = (case p_description p of Str d \<Rightarrow> Some d | _ \<Rightarrow> None),
      debitCard_ref = card_id c, user_ref = card_user c\<rparr>"

definition create_try :: "faults \<Rightarrow> int \<Rightarrow> world \<Rightarrow> create_params \<Rightarrow> (error + transaction) \<times> world" where
  "create_try F now w p =
     (case validate_create p of
        Some e \<Rightarrow> (Inl e, w)
      | None \<Rightarrow>
          (case resolve_card w p of
             Inl e \<Rightarrow> (Inl e, w)
           | Inr None \<Rightarrow>
               (Inl (HandledError ''Debit card not found or inactive for the account number provided'' 400), w)
           | Inr (Some c) \<Rightarrow>
               if \<not> active c
               then (Inl (HandledError ''Debit card not found or inactive for the account number provided'' 400), w)
               else
                 (let t = new_transaction now w p c;
                      w1 = w\<lparr>next_id := Suc (next_id w)\<rparr>
                  in if p_skipSave p then (Inr t, w1)
                     else (case save_new F t w1 of
                             (Inl e, w2) \<Rightarrow> (Inl e, w2)
                           | (Inr u, w2) \<Rightarrow> (Inr t, w2)))))"

definition create :: "faults \<Rightarrow> int \<Rightarrow> world \<Rightarrow> create_params \<Rightarrow> (error + transaction) \<times> world" where
  "create F now w p =
     catch_rethrow ''Error creating transaction: '' ''Error creating transaction''
       ''Error creating transaction'' None (create_try F now w p)"

section \<open>Transaction.statics.createTransferTransaction\<close>

definition js_le0 :: "jsnum \<Rightarrow> bool" where
  "js_le0 n = (case n of Num a \<Rightarrow> a \<le> 0 | NaN \<Rightarrow> False)"

definition js_neg :: "jsnum \<Rightarrow> jsnum" where
  "js_neg n = (case n of Num a \<Rightarrow> Num (- a) | NaN \<Rightarrow> NaN)"

text \<open>\<open>balance < amount\<close> with a finite balance.\<close>

definition less_js :: "rat \<Rightarrow> jsnum \<Rightarrow> bool" where
  "less_js b n = (case n of Num a \<Rightarrow> b < a | NaN \<Rightarrow> False)"

definition sender_params :: "debitCard \<Rightarrow> debitCard \<Rightarrow> jsnum \<Rightarrow> create_params" where
  "sender_params sc rc n =
     \<lparr>p_type = Str ''withdrawal'', p_subtype = Str ''transfer'', p_amount = Number (js_neg n),
      p_vender = Str ''SELF'', p_description = Str (''Transfer to '' @ toString (card_user rc)),
      p_accountNumber = Undefined, p_debitCard = CardDoc sc, p_skipSave = False\<rparr>"

definition receiver_params :: "debitCard \<Rightarrow> debitCard \<Rightarrow> jsnum \<Rightarrow> create_params" where
  "receiver_params sc rc n =
     \<lparr>p_type = Str ''debit'', p_subtype = Str ''credit'', p_amount = Number n,
      p_vender = Str ''SELF'', p_description = Str (''Transfer from '' @ toString (card_user sc)),
      p_accountNumber = Undefined, p_debitCard = CardDoc rc, p_skipSave = False\<rparr>"

text \<open>After the three parameter checks and the two lookups.\<close>

definition transfer_funds ::
  "faults \<Rightarrow> int \<Rightarrow> world \<Rightarrow> debitCard \<Rightarrow> debitCard \<Rightarrow> jsnum \<Rightarrow> (error + transaction list) \<times> world" where
  "transfer_funds F now w sc rc n =
     (case getBalances w sc of
        (Inl e, w1) \<Rightarrow> (Inl e, w1)
      | (Inr senderBalance, w1) \<Rightarrow>
          if less_js (finalBalance senderBalance) n
          then (Inl (HandledError ''Insufficient funds for transfer'' 400), w1)
          else
            (case create F now w1 (sender_params sc rc n) of
               (Inl e, w2) \<Rightarrow> (Inl e, w2)
             | (Inr senderTransaction, w2) \<Rightarrow>
                 (case create F now w2 (receiver_params sc rc n) of
                    (Inl e, w3) \<Rightarrow> (Inl e, w3)
                  | (Inr receiverTransaction, w3) \<Rightarrow>
                      (Inr [senderTransaction, receiverTransaction], w3))))"

definition transfer_try ::
  "faults \<Rightarrow> int \<Rightarrow> world \<Rightarrow> jsval \<Rightarrow> jsval \<Rightarrow> jsval \<Rightarrow> (error + transaction list) \<times> world" where
  "transfer_try F now w senderAccountNumber receiverAccountNumber amt =
     (case senderAccountNumber of
        Str sa \<Rightarrow>
          (case receiverAccountNumber of
             Str ra \<Rightarrow>
               (case amt of
                  Number n \<Rightarrow>
                    if js_le0 n
                    then (Inl (HandledError ''Transfer amount required as a positive number'' 400), w)
                    else
                      (case findOne_card_by_accountNumber w sa of
                         None \<Rightarrow> (Inl (HandledError ''Sender debit card not found or is inactive'' 400), w)
                       | Some sc \<Rightarrow>
                           if \<not> active sc
                           then (Inl (HandledError ''Sender debit card not found or is inactive'' 400), w)
                           else
                             (case findOne_card_by_accountNumber w ra of
                                None \<Rightarrow> (Inl (HandledError ''Receiver debit card not found or is inactive'' 400), w)
                              | Some rc \<Rightarrow>
                                  if \<not> active rc
                                  then (Inl (HandledError ''Receiver debit card not found or is inactive'' 400), w)
                                  else transfer_funds F now w sc rc n))
                | _ \<Rightarrow> (Inl (HandledError ''Transfer amount required as a positive number'' 400), w))
           | _ \<Rightarrow> (Inl (HandledError ''Valid receiverAccountNumber required as a string'' 400), w))
      | _ \<Rightarrow> (Inl (HandledError ''Valid senderAccountNumber required as a string'' 400), w))"

definition createTransferTransaction ::
  "faults \<Rightarrow> int \<Rightarrow> world \<Rightarrow> jsval \<Rightarrow> jsval \<Rightarrow> jsval \<Rightarrow> (error + transaction list) \<times> world" where
  "createTransferTransaction F now w senderAccountNumber receiverAccountNumber amt =
     catch_rethrow ''Error creating transfer transaction: '' ''Error creating transfer transaction''
       ''Error creating transfer transactions'' None
       (transfer_try F now w senderAccountNumber receiverAccountNumber amt)"

section \<open>Derived transactions: overdraft fee and cashback\<close>

definition fee_params :: "debitCard \<Rightarrow> create_params" where
  "fee_params dc =
     \<lparr>p_type = Str ''withdrawal'', p_subtype = Str ''fee'', p_amount = Number (Num (- 10)),
      p_vender = Str ''ONE'', p_description = Str ''Overdraft fee'',
      p_accountNumber = Undefined, p_debitCard = CardDoc dc, p_skipSave = True\<rparr>"

definition overdraft_try :: "faults \<Rightarrow> int \<Rightarrow> world \<Rightarrow> debitCard option \<Rightarrow> (error + transaction) \<times> world" where
  "overdraft_try F now w d =
     (case d of
        None \<Rightarrow> (Inl (HandledError ''Invalid transaction parameters for overdraft fee'' 400), w)
      | Some dc \<Rightarrow>
          (case create F now w (fee_params dc) of
             (Inl e, w1) \<Rightarrow> (Inl e, w1)
           | (Inr t, w1) \<Rightarrow>
               (let feeTransaction = t\<lparr>status := ''completed''\<rparr> in
                case save_new F feeTransaction w1 of
                  (Inl e, w2) \<Rightarrow> (Inl e, w2)
                | (Inr u, w2) \<Rightarrow>
                    (case save_card F dc now w2 of
                       (Inl e, w3) \<Rightarrow> (Inl e, w3)
                     | (Inr u, w3) \<Rightarrow> (Inr feeTransaction, w3)))))"

definition createOverdraftFeeTransaction ::
  "faults \<Rightarrow> int \<Rightarrow> world \<Rightarrow> debitCard option \<Rightarrow> (error + transaction) \<times> world" where
  "createOverdraftFeeTransaction F now w d =
     catch_rethrow ''Error creating overdraft fee transaction: ''
       ''Error creating overdraft fee transaction'' ''Error creating overdraft fee transaction''
       (map_option card_id d) (overdraft_try F now w d)"

definition cashback_params :: "config \<Rightarrow> transaction \<Rightarrow> create_params" where
  "cashback_params cfg t =
     \<lparr>p_type = Str ''debit'', p_subtype = Str ''cashback'',
      p_amount = Number (Num (of_int (Math_round ((\<bar>amount t\<bar> * CASHBACK_RATE cfg) * 100)) / 100)),
      p_vender = Str ''ONE'',
      p_description = Str (''Cashback for eligible purchase - '' @ toString (tx_id t)),
      p_accountNumber = Undefined, p_debitCard = CardId (debitCard_ref t), p_skipSave = True\<rparr>"

definition cashback_try ::
  "faults \<Rightarrow> config \<Rightarrow> int \<Rightarrow> world \<Rightarrow> transaction option \<Rightarrow> (error + transaction) \<times> world" where
  "cashback_try F cfg now w tr =
     (case tr of
        None \<Rightarrow> (Inl (HandledError ''Invalid transaction parameters for cashback'' 400), w)
      | Some t \<Rightarrow>
          if amount t = 0
          then (Inl (HandledError ''Invalid transaction parameters for cashback'' 400), w)
          else if status t \<noteq> ''completed'' \<or> ttype t \<noteq> ''withdrawal'' \<or> subtype t \<noteq> ''purchase''
          then (Inl (HandledError ''Transaction invalid for cashback - must be completed purchase'' 400), w)
          else
            (case create F now w (cashback_params cfg t) of
               (Inl e, w1) \<Rightarrow> (Inl e, w1)
             | (Inr c, w1) \<Rightarrow>
                 (let cashbackTransaction = c\<lparr>status := ''completed''\<rparr> in
                  case save_new F cashbackTransaction w1 of
                    (Inl e, w2) \<Rightarrow> (Inl e, w2)
                  | (Inr u, w2) \<Rightarrow> (Inr cashbackTransaction, w2))))"

definition createCashbackTransaction ::
  "faults \<Rightarrow> config \<Rightarrow> int \<Rightarrow> world \<Rightarrow> transaction option \<Rightarrow> (error + transaction) \<times> world" where
  "createCashbackTransaction F cfg now w tr =
     catch_rethrow ''Error creating cashback transaction: ''
       ''Error creating cashback transaction'' ''Error creating cashback transaction''
       (map_option tx_id tr) (cashback_try F cfg now w tr)"

section \<open>Transaction.methods.cancel\<close>

definition cancel_try :: "faults \<Rightarrow> world \<Rightarrow> transaction \<Rightarrow> (error + transaction) \<times> world" where
  "cancel_try F w t =
     (if status t \<noteq> ''pending''
      then (Inl (HandledError ''Transaction cannot be canceled once executed'' 400), w)
      else
        (let this = t\<lparr>status := ''canceled''\<rparr> in
         case save_status F this w of
           (Inl e, w1) \<Rightarrow> (Inl e, w1)
         | (Inr u, w1) \<Rightarrow> (Inr this, w1)))"

definition cancel :: "faults \<Rightarrow> world \<Rightarrow> transaction \<Rightarrow> (error + transaction) \<times> world" where
  "cancel F w t =
     catch_rethrow ''Error canceling transaction: '' ''Error canceling transaction''
       ''Error canceling transaction'' (Some (tx_id t)) (cancel_try F w t)"

section \<open>Transaction.statics.validatePending\<close>

text \<open>
  Reading a property of the object returned by \<open>getBalances\<close>. Property names are case
  sensitive: a name the object does not have reads as \<open>undefined\<close>.
\<close>

definition get_prop :: "balances \<Rightarrow> string \<Rightarrow> rat option" where
  "get_prop b k =
     (if k = ''currentBalance'' then Some (currentBalance b)
      else if k = ''pendingBalance'' then Some (pendingBalance b)
      else if k = ''finalBalance'' then Some (finalBalance b)
      else None)"

text \<open>The \<open>$group\<close> stage with \<open>$push\<close>: groups in order of first appearance.\<close>

fun push_group :: "transaction \<Rightarrow> (nat \<times> transaction list) list \<Rightarrow> (nat \<times> transaction list) list" where
  "push_group t [] = [(debitCard_ref t, [t])]"
| "push_group t ((k, ts) # gs) =
     (if k = debitCard_ref t then (k, ts @ [t]) # gs else (k, ts) # push_group t gs)"

definition group_by_card :: "transaction list \<Rightarrow> (nat \<times> transaction list) list" where
  "group_by_card txs = foldl (\<lambda>gs t. push_group t gs) [] txs"

definition pending_by_card :: "world \<Rightarrow> (nat \<times> transaction list) list" where
  "pending_by_card w =
     group_by_card (sort_key date (filter (\<lambda>t. status t = ''pending'') (transactions w)))"

text \<open>The \<open>updateOne\<close> that ends the \<open>try\<close> block of one transaction.\<close>

definition persist_status ::
  "faults \<Rightarrow> transaction \<Rightarrow> balances \<times> world \<Rightarrow> (error + unit) \<times> balances \<times> world" where
  "persist_status F t bw =
     (case bw of (b, w) \<Rightarrow>
        (case updateOne_status F (tx_id t) (status t) w of
           (Inl e, w1) \<Rightarrow> (Inl e, b, w1)
         | (Inr u, w1) \<Rightarrow> (Inr (), b, w1)))"

text \<open>
  The \<open>try\<close> block of one transaction. The comparison reads the property
  \<open>currentbalance\<close>, the additions write \<open>currentBalance\<close>.
\<close>

definition settle_try ::
  "faults \<Rightarrow> config \<Rightarrow> int \<Rightarrow> transaction \<Rightarrow> balances \<times> world \<Rightarrow> (error + unit) \<times> balances \<times> world" where
  "settle_try F cfg now t bw =
     (case bw of (debitBalance, w) \<Rightarrow>
        if ttype t = ''withdrawal'' then
          (if js_less (js_plus (get_prop debitBalance ''currentbalance'') (amount t))
                (MAX_NEGATIVE_BALANCE cfg)
           then persist_status F (t\<lparr>status := ''failed''\<rparr>) (debitBalance, w)
           else
             (let t1 = t\<lparr>status := ''completed''\<rparr>;
                  b1 = debitBalance\<lparr>currentBalance := currentBalance debitBalance + amount t\<rparr>
              in if toUpperCase (vender t) \<in> set CASHBACK_VENDERS
                 then (case createCashbackTransaction F cfg now w (Some t1) of
                         (Inl e, w1) \<Rightarrow> (Inl e, b1, w1)
                       | (Inr c, w1) \<Rightarrow> persist_status F t1 (b1, w1))
                 else persist_status F t1 (b1, w)))
        else
          persist_status F (t\<lparr>status := ''completed''\<rparr>)
            (debitBalance\<lparr>currentBalance := currentBalance debitBalance + amount t\<rparr>, w))"

text \<open>With its \<open>catch\<close>: the error is logged and swallowed.\<close>

definition validate_transaction ::
  "faults \<Rightarrow> config \<Rightarrow> int \<Rightarrow> transaction \<Rightarrow> balances \<times> world \<Rightarrow> balances \<times> world" where
  "validate_transaction F cfg now t bw =
     (case settle_try F cfg now t bw of
        (Inl e, b, w) \<Rightarrow> (b, logger_error ''Error validating transaction'' (Some (tx_id t)) w)
      | (Inr u, b, w) \<Rightarrow> (b, w))"

fun validate_transactions ::
  "faults \<Rightarrow> config \<Rightarrow> int \<Rightarrow> transaction list \<Rightarrow> balances \<times> world \<Rightarrow> balances \<times> world" where
  "validate_transactions F cfg now [] bw = bw"
| "validate_transactions F cfg now (t # ts) bw =
     validate_transactions F cfg now ts (validate_transaction F cfg now t bw)"

text \<open>
  \<open>debitBalance.currentBalance < 0 && debitCard.lastOverdraftFee &&
  new Date() - debitCard.lastOverdraftFee > FIVE_DAYS\<close>
\<close>

definition overdraft_due :: "int \<Rightarrow> debitCard \<Rightarrow> balances \<Rightarrow> bool" where
  "overdraft_due now dc b =
     (currentBalance b < 0 \<and>
      (case lastOverdraftFee dc of None \<Rightarrow> False | Some l \<Rightarrow> now - l > FIVE_DAYS))"

definition charge_overdraft :: "faults \<Rightarrow> int \<Rightarrow> debitCard \<Rightarrow> balances \<times> world \<Rightarrow> world" where
  "charge_overdraft F now dc bw =
     (case bw of (b, w) \<Rightarrow>
        if overdraft_due now dc b
        then (case createOverdraftFeeTransaction F now w (Some dc) of
                (Inl e, w1) \<Rightarrow>
                  logger_error ''Error creating overdraft fee after validation'' (Some (card_id dc)) w1
              | (Inr f, w1) \<Rightarrow> w1)
        else w)"

text \<open>
  One group. A card that is not found makes \<open>debitCard.getBalances()\<close> a \<open>TypeError\<close>,
  and the \<open>catch\<close> around it reads \<open>debitCard._id\<close> and throws again, out of the loop.
\<close>

definition validate_group ::
  "faults \<Rightarrow> config \<Rightarrow> int \<Rightarrow> nat \<times> transaction list \<Rightarrow> world \<Rightarrow> (error + unit) \<times> world" where
  "validate_group F cfg now g w =
     (case g of (cid, ts) \<Rightarrow>
        (case findOne_card_by_id w cid of
           None \<Rightarrow> (Inl TypeError, w)
         | Some dc \<Rightarrow>
             (case getBalances w dc of
                (Inl e, w1) \<Rightarrow>
                  (Inr (), logger_error ''Error getting balances for debit card during validation''
                     (Some (card_id dc)) w1)
              | (Inr debitBalance, w1) \<Rightarrow>
                  (Inr (), charge_overdraft F now dc
                     (validate_transactions F cfg now ts (debitBalance, w1))))))"

fun validate_groups ::
  "faults \<Rightarrow> config \<Rightarrow> int \<Rightarrow> (nat \<times> transaction list) list \<Rightarrow> world \<Rightarrow> (error + unit) \<times> world" where
  "validate_groups F cfg now [] w = (Inr (), w)"
| "validate_groups F cfg now (g # gs) w =
     (case validate_group F cfg now g w of
        (Inl e, w1) \<Rightarrow> (Inl e, w1)
      | (Inr u, w1) \<Rightarrow> validate_groups F cfg now gs w1)"

definition validatePending :: "faults \<Rightarrow> config \<Rightarrow> int \<Rightarrow> world \<Rightarrow> (error + unit) \<times> world" where
  "validatePending F cfg now w =
     (if length (filter (\<lambda>t. status t = ''pending'') (transactions w)) = 0 then (Inr (), w)
      else
        (case validate_groups F cfg now (pending_by_card w) w of
           (Inl e, w1) \<Rightarrow>
             (Inl (HandledError ''Error validating pending transactions'' 500),
              logger_error ''Error validating pending transactions'' None w1)
         | (Inr u, w1) \<Rightarrow> (Inr (), w1)))"

section \<open>Transaction.statics.addBalanceInterest\<close>

record user_total =
  ut_id :: nat
  totalBalance :: rat
  ut_debitCard :: nat







section \<open>Notions of the specification and example inputs\<close>

text \<open>The sum of the amounts of the transactions of one account that have one status.\<close>

definition sum_amounts :: "world \<Rightarrow> nat \<Rightarrow> string \<Rightarrow> rat" where
  "sum_amounts w cid s =
     sum_list (map amount (filter (\<lambda>t. debitCard_ref t = cid \<and> status t = s) (transactions w)))"

text \<open>An active account that was never charged an overdraft fee.\<close>

definition card_A :: debitCard where
  "card_A = \<lparr>card_id = 1, accountNumber = ''4000000000000001'', active = True,
     lastOverdraftFee = None, card_user = 7\<rparr>"

text \<open>A pending purchase against \<open>card_A\<close>.\<close>

definition purchase :: "nat \<Rightarrow> rat \<Rightarrow> string \<Rightarrow> transaction" where
  "purchase i a v = \<lparr>tx_id = i, date = 1000, ttype = ''withdrawal'', subtype = ''purchase'',
     amount = a, status = ''pending'', vender = v, description = None,
     debitCard_ref = 1, user_ref = 7\<rparr>"

text \<open>\<open>card_A\<close> before its first transaction.\<close>

definition world_fresh :: world where
  "world_fresh = \<lparr>transactions = [], debitCards = [card_A], next_id = 2, logged = []\<rparr>"

text \<open>Balance 0 and one pending withdrawal of 150, beyond the floor of -100.\<close>

definition world_overdrawn :: world where
  "world_overdrawn = \<lparr>transactions = [purchase 2 (- 150) ''SHOP''], debitCards = [card_A],
     next_id = 3, logged = []\<rparr>"

text \<open>Balance 0 and one pending withdrawal of 50, within the floor.\<close>

definition world_negative :: world where
  "world_negative = \<lparr>transactions = [purchase 2 (- 50) ''SHOP''], debitCards = [card_A],
     next_id = 3, logged = []\<rparr>"

text \<open>A second active account, and \<open>card_A\<close> holding one completed credit of 100.\<close>

definition card_B :: debitCard where
  "card_B = \<lparr>card_id = 3, accountNumber = ''4000000000000002'', active = True,
     lastOverdraftFee = None, card_user = 8\<rparr>"

definition credit_100 :: transaction where
  "credit_100 = \<lparr>tx_id = 2, date = 1000, ttype = ''debit'', subtype = ''credit'', amount = 100,
     status = ''completed'', vender = ''BANK'', description = None,
     debitCard_ref = 1, user_ref = 7\<rparr>"

definition world_funded :: world where
  "world_funded = \<lparr>transactions = [credit_100], debitCards = [card_A, card_B],
     next_id = 4, logged = []\<rparr>"



text \<open>
  The users of a list of transactions in order of first appearance, and the group of one
  user: its sum, and the card of its first transaction.
\<close>

definition first_users :: "transaction list \<Rightarrow> nat list" where
  "first_users cs = rev (remdups (rev (map user_ref cs)))"

definition user_group :: "transaction list \<Rightarrow> nat \<Rightarrow> user_total" where
  "user_group cs u =
     \<lparr>ut_id = u, totalBalance = sum_list (map amount (filter (\<lambda>t. user_ref t = u) cs)),
      ut_debitCard = (case find (\<lambda>t. user_ref t = u) cs of Some t \<Rightarrow> debitCard_ref t | None \<Rightarrow> 0)\<rparr>"



text \<open>
  Three users: completed amounts 30 + 20 (and a pending 500) for user 7, a completed 100
  for user 8, a completed -5 for user 9.
\<close>

definition entry :: "nat \<Rightarrow> string \<Rightarrow> rat \<Rightarrow> string \<Rightarrow> nat \<Rightarrow> nat \<Rightarrow> transaction" where
  "entry i ty a s c u = \<lparr>tx_id = i, date = 1000, ttype = ty,
     subtype = (if ty = ''debit'' then ''credit'' else ''purchase''), amount = a, status = s,
     vender = ''BANK'', description = None, debitCard_ref = c, user_ref = u\<rparr>"


text \<open>
  The status transitions the specification allows for one stored transaction: none, or
  from \<open>pending\<close> to \<open>completed\<close>, \<open>failed\<close> or \<open>canceled\<close>, nothing else of the
  transaction changing. A store evolves when every transaction it held is still at its
  place and has moved that way; transactions may have been appended.
\<close>

definition forward :: "transaction \<Rightarrow> transaction \<Rightarrow> bool" where
  "forward t t' =
     (t' = t \<or>
      (status t = ''pending'' \<and>
       (t' = t\<lparr>status := ''completed''\<rparr> \<or> t' = t\<lparr>status := ''failed''\<rparr>
        \<or> t' = t\<lparr>status := ''canceled''\<rparr>)))"

definition evolves :: "transaction list \<Rightarrow> transaction list \<Rightarrow> bool" where
  "evolves xs ys = (length xs \<le> length ys \<and> list_all2 forward xs (take (length xs) ys))"



text \<open>A cashback transaction is made when its source passes the checks, its amount is
  accepted by \<open>create\<close>, its card is found and active, and its save succeeds.\<close>

definition cashback_made :: "faults \<Rightarrow> config \<Rightarrow> world \<Rightarrow> transaction \<Rightarrow> debitCard \<Rightarrow> bool" where
  "cashback_made F cfg w t c =
     (amount t \<noteq> 0 \<and> status t = ''completed'' \<and> ttype t = ''withdrawal''
      \<and> subtype t = ''purchase'' \<and> validate_create (cashback_params cfg t) = None
      \<and> findOne_card_by_id w (debitCard_ref t) = Some c \<and> active c
      \<and> \<not> save_fails F (next_id w))"

text \<open>The cashback transaction as it is saved.\<close>

definition cashback_of :: "config \<Rightarrow> int \<Rightarrow> world \<Rightarrow> transaction \<Rightarrow> debitCard \<Rightarrow> transaction" where
  "cashback_of cfg now w t c = (new_transaction now w (cashback_params cfg t) c)\<lparr>status := ''completed''\<rparr>"

text \<open>The world after the status update of a transaction marked \<open>completed\<close>, or after
  the log entry of the \<open>catch\<close> when the update fails.\<close>

definition settled_world :: "faults \<Rightarrow> transaction \<Rightarrow> world \<Rightarrow> world" where
  "settled_world F t w =
     (if updateOne_fails F (tx_id t)
      then logger_error ''Error validating transaction'' (Some (tx_id t)) w
      else w\<lparr>transactions := set_status (tx_id t) ''completed'' (transactions w)\<rparr>)"


text \<open>\<open>card_A\<close> with a completed credit of 100 and a pending purchase of 20 at \<open>amzn\<close>.\<close>

definition world_purchase :: world where
  "world_purchase = \<lparr>transactions = [credit_100, purchase 5 (- 20) ''amzn''],
     debitCards = [card_A], next_id = 6, logged = []\<rparr>"

text \<open>A group of three pending transactions of \<open>card_A\<close>: a purchase whose status update
  fails, a purchase of 0.40 at a cashback vendor, and a credit.\<close>

definition group_A :: "transaction list" where
  "group_A = [purchase 2 (- 30) ''SHOP'', purchase 3 (- 2 / 5) ''AMZN'',
     entry 4 ''debit'' 60 ''pending'' 1 7]"

definition world_group :: world where
  "world_group = \<lparr>transactions = group_A, debitCards = [card_A], next_id = 5, logged = []\<rparr>"



section \<open>Properties of getBalances\<close>



lemma getBalances_empty:
  assumes "\<forall>t\<in>set (transactions w). debitCard_ref t \<noteq> card_id dc"
  shows "getBalances w dc = (Inl (HandledError ''Error getting debit card balances'' 500),
           logger_error ''Error getting debit card balances'' (Some (card_id dc)) w)"
proof -
  have "filter (\<lambda>t. debitCard_ref t = card_id dc) (transactions w) = []"
    using assms by (simp add: filter_empty_conv)
  then show ?thesis by (simp add: getBalances_def aggregate_totals_def)
qed


lemma catch_rethrow_Inr [simp]: "catch_rethrow a b c d (Inr v, w) = (Inr v, w)"
  by (simp add: catch_rethrow_def)

lemma catch_rethrow_handled [simp]:
  "catch_rethrow a b c d (Inl (HandledError m k), w)
     = (Inl (HandledError m k), logger_info (a @ m) d w)"
  by (simp add: catch_rethrow_def)

lemma catch_rethrow_storage [simp]:
  "catch_rethrow a b c d (Inl StorageError, w) = (Inl (HandledError c 500), logger_error b d w)"
  by (simp add: catch_rethrow_def)

lemma logger_fields [simp]:
  "transactions (logger_info m d w) = transactions w"
  "transactions (logger_error m d w) = transactions w"
  "debitCards (logger_info m d w) = debitCards w"
  "debitCards (logger_error m d w) = debitCards w"
  "next_id (logger_info m d w) = next_id w"
  "next_id (logger_error m d w) = next_id w"
  by (simp_all add: logger_info_def logger_error_def)

text \<open>
  C4, at an account that has no transaction yet: the sums of the specification are all 0
  there, and \<open>getBalances\<close> returns no balances but throws the generic error with code 500.
\<close>

theorem getBalances_fresh_account:
  "sum_amounts world_fresh (card_id card_A) ''completed'' = 0
   \<and> sum_amounts world_fresh (card_id card_A) ''pending'' = 0
   \<and> fst (getBalances world_fresh card_A)
       = Inl (HandledError ''Error getting debit card balances'' 500)"
  by (simp add: sum_amounts_def world_fresh_def getBalances_def aggregate_totals_def)

text \<open>
  C10: for an account without any transaction \<open>getBalances\<close> throws the generic error
  with code 500, and so does a transfer whose sender is such an account, which creates
  nothing.
\<close>

theorem getBalances_without_transactions:
  assumes "\<forall>t\<in>set (transactions w). debitCard_ref t \<noteq> card_id sc"
  shows "fst (getBalances w sc) = Inl (HandledError ''Error getting debit card balances'' 500)
     \<and> (findOne_card_by_accountNumber w sa = Some sc \<and> active sc
        \<and> findOne_card_by_accountNumber w ra = Some rc \<and> active rc \<and> 0 < a
        \<longrightarrow> fst (createTransferTransaction F now w (Str sa) (Str ra) (Number (Num a)))
              = Inl (HandledError ''Error getting debit card balances'' 500)
            \<and> transactions (snd (createTransferTransaction F now w (Str sa) (Str ra) (Number (Num a))))
              = transactions w)"
  using getBalances_empty [OF assms]
  by (simp add: createTransferTransaction_def transfer_try_def transfer_funds_def js_le0_def)

theorem getBalances_without_transactions_witness:
  "fst (getBalances world_fresh card_A) = Inl (HandledError ''Error getting debit card balances'' 500)
   \<and> fst (createTransferTransaction no_faults 5000 world_fresh (Str ''4000000000000001'')
            (Str ''4000000000000001'') (Number (Num 20)))
       = Inl (HandledError ''Error getting debit card balances'' 500)"
  using getBalances_without_transactions [of world_fresh card_A "''4000000000000001''"
      "''4000000000000001''" card_A 20 no_faults 5000]
  by (simp add: world_fresh_def card_A_def findOne_card_by_accountNumber_def)

section \<open>The settlement of examples\<close>

text \<open>
  C1, at balance 0 with a pending withdrawal of 150 and the floor at -100: the sum
  0 + (-150) is below the floor, and the withdrawal is stored as \<open>completed\<close>.
\<close>

theorem validatePending_overdrawn_completed:
  "(0 :: rat) + (- 150) < MAX_NEGATIVE_BALANCE default_config
   \<and> map status (transactions (snd (validatePending no_faults default_config 5000 world_overdrawn)))
       = [''completed'']"
  by code_simp

text \<open>
  C2, at an account never charged a fee whose balance after settlement is -50: no
  transaction is created and the account still has no \<open>lastOverdraftFee\<close>.
\<close>

theorem validatePending_negative_no_fee:
  "sum_amounts (snd (validatePending no_faults default_config 5000 world_negative)) 1 ''completed''
     = - 50
   \<and> map subtype (transactions (snd (validatePending no_faults default_config 5000 world_negative)))
       = [''purchase'']
   \<and> map lastOverdraftFee (debitCards (snd (validatePending no_faults default_config 5000 world_negative)))
       = [None]"
  by code_simp

text \<open>Whatever the balance, an account without \<open>lastOverdraftFee\<close> is charged nothing.\<close>

lemma charge_overdraft_never_charged:
  "lastOverdraftFee dc = None \<Longrightarrow> charge_overdraft F now dc (b, w) = w"
  by (simp add: charge_overdraft_def overdraft_due_def)

section \<open>Properties of create\<close>

lemma Math_round_of_int [simp]: "Math_round (of_int k) = k"
  unfolding Math_round_def by linarith









lemma tx_id_new_transaction [simp]: "tx_id (new_transaction now w p c) = next_id w"
  by (simp add: new_transaction_def)




section \<open>Properties of createTransferTransaction\<close>






section \<open>Properties of addBalanceInterest\<close>


lemma distinct_first_users [simp]: "distinct (first_users cs)"
  by (simp add: first_users_def)

lemma set_first_users [simp]: "set (first_users cs) = user_ref ` set cs"
  by (simp add: first_users_def)







lemma ut_id_user_group [simp]: "ut_id (user_group cs u) = u"
  by (simp add: user_group_def)

















section \<open>Properties of validatePending\<close>

subsection \<open>Lists of transactions\<close>

lemma find_append_tx:
  "find P (xs @ ys) = (case find P xs of Some x \<Rightarrow> Some x | None \<Rightarrow> find P ys)"
  by (induction xs) auto

lemma find_set_status:
  "find (\<lambda>t. tx_id t = i) (set_status j s xs) =
     (if i = j then map_option (\<lambda>t. t\<lparr>status := s\<rparr>) (find (\<lambda>t. tx_id t = i) xs)
      else find (\<lambda>t. tx_id t = i) xs)"
  by (induction xs) auto

lemma length_set_status [simp]: "length (set_status i s xs) = length xs"
  by (induction xs) auto

lemma set_status_append:
  "find (\<lambda>t. tx_id t = i) xs \<noteq> None \<Longrightarrow> set_status i s (xs @ ys) = set_status i s xs @ ys"
  by (induction xs) auto

lemma find_distinct_member:
  "distinct (map tx_id xs) \<Longrightarrow> t \<in> set xs \<Longrightarrow> find (\<lambda>x. tx_id x = tx_id t) xs = Some t"
  by (induction xs) (auto simp: rev_image_eqI)

lemma forward_refl [simp]: "forward t t"
  by (simp add: forward_def)

lemma forward_trans: "forward a b \<Longrightarrow> forward b c \<Longrightarrow> forward a c"
  by (auto simp: forward_def)

lemma list_all2_forward_refl [simp]: "list_all2 forward xs xs"
  by (simp add: list_all2_refl)

lemma evolves_refl [simp]: "evolves xs xs"
  by (simp add: evolves_def)

lemma evolves_append [simp]: "evolves xs (xs @ ys)"
  by (simp add: evolves_def)

lemma evolves_trans:
  assumes "evolves xs ys" "evolves ys zs"
  shows "evolves xs zs"
proof -
  from assms have l: "length xs \<le> length ys" "length ys \<le> length zs"
    and a: "list_all2 forward xs (take (length xs) ys)"
    and b: "list_all2 forward ys (take (length ys) zs)"
    by (simp_all add: evolves_def)
  from b have "list_all2 forward (take (length xs) ys) (take (length xs) (take (length ys) zs))"
    by (rule list_all2_takeI)
  with l have "list_all2 forward (take (length xs) ys) (take (length xs) zs)"
    by (simp add: min_def)
  with a have "list_all2 forward xs (take (length xs) zs)"
    by (rule list_all2_trans [rotated 1]) (rule forward_trans)
  with l show ?thesis by (simp add: evolves_def)
qed

lemma list_all2_set_status:
  assumes "\<And>t. find (\<lambda>t. tx_id t = i) xs = Some t \<Longrightarrow> status t = ''pending''"
    and "s = ''completed'' \<or> s = ''failed'' \<or> s = ''canceled''"
  shows "list_all2 forward xs (set_status i s xs)"
  using assms(1)
proof (induction xs)
  case Nil
  then show ?case by simp
next
  case (Cons x xs)
  show ?case
  proof (cases "tx_id x = i")
    case True
    with Cons.prems [of x] have "status x = ''pending''" by simp
    with assms(2) have "forward x (x\<lparr>status := s\<rparr>)" by (auto simp: forward_def)
    with True show ?thesis by simp
  next
    case False
    with Cons show ?thesis by simp
  qed
qed

lemma evolves_set_status:
  assumes "\<And>t. find (\<lambda>t. tx_id t = i) xs = Some t \<Longrightarrow> status t = ''pending''"
    and "s = ''completed'' \<or> s = ''failed'' \<or> s = ''canceled''"
  shows "evolves xs (set_status i s xs)"
  using list_all2_set_status [OF assms] by (simp add: evolves_def)

lemma evolves_set_status_append:
  assumes "find (\<lambda>t. tx_id t = i) xs = Some t" "status t = ''pending''"
    and "s = ''completed'' \<or> s = ''failed'' \<or> s = ''canceled''"
  shows "evolves xs (set_status i s (xs @ ys))"
proof -
  have "set_status i s (xs @ ys) = set_status i s xs @ ys"
    using assms(1) by (simp add: set_status_append)
  moreover have "list_all2 forward xs (set_status i s xs)"
    using assms by (intro list_all2_set_status) auto
  ultimately show ?thesis by (simp add: evolves_def)
qed

subsection \<open>Effects of the derived-transaction methods\<close>

lemma catch_rethrow_store [simp]:
  "transactions (snd (catch_rethrow a b c d r)) = transactions (snd r)"
  "debitCards (snd (catch_rethrow a b c d r)) = debitCards (snd r)"
  "next_id (snd (catch_rethrow a b c d r)) = next_id (snd r)"
  by (auto simp: catch_rethrow_def split: prod.splits sum.splits)

lemma catch_rethrow_fst_Inr [simp]:
  "fst (catch_rethrow a b c d r) = Inr v \<longleftrightarrow> fst r = Inr v"
  by (auto simp: catch_rethrow_def split: prod.splits sum.splits)

lemma catch_rethrow_logged:
  "fst r = Inr v \<Longrightarrow> logged (snd (catch_rethrow a b c d r)) = logged (snd r)"
  by (auto simp: catch_rethrow_def split: prod.splits sum.splits)


text \<open>\<open>create\<close> with \<open>skipSave\<close> stores nothing.\<close>

lemma create_try_skipSave:
  assumes "p_skipSave p"
  shows "transactions (snd (create_try F now w p)) = transactions w"
    and "debitCards (snd (create_try F now w p)) = debitCards w"
    and "set (logged w) \<subseteq> set (logged (snd (create_try F now w p)))"
  using assms
  by (auto simp: create_try_def Let_def split: option.splits sum.splits)

lemma create_try_skipSave_Inr:
  assumes "p_skipSave p"
  shows "fst (create_try F now w p) = Inr t \<longleftrightarrow>
     validate_create p = None
     \<and> (\<exists>c. resolve_card w p = Inr (Some c) \<and> active c \<and> t = new_transaction now w p c)"
  using assms
  by (auto simp: create_try_def Let_def split: option.splits sum.splits)

lemma create_try_skipSave_world:
  assumes "p_skipSave p" "fst (create_try F now w p) = Inr t"
  shows "snd (create_try F now w p) = w\<lparr>next_id := Suc (next_id w)\<rparr>"
  using assms
  by (auto simp: create_try_def Let_def split: option.splits sum.splits if_splits)

lemma create_skipSave:
  assumes "p_skipSave p"
  shows "transactions (snd (create F now w p)) = transactions w"
    and "debitCards (snd (create F now w p)) = debitCards w"
  using create_try_skipSave [OF assms] by (simp_all add: create_def)

lemma create_skipSave_Inr:
  assumes "p_skipSave p"
  shows "fst (create F now w p) = Inr t \<longleftrightarrow>
     validate_create p = None
     \<and> (\<exists>c. resolve_card w p = Inr (Some c) \<and> active c \<and> t = new_transaction now w p c)"
  using create_try_skipSave_Inr [OF assms] by (simp add: create_def)

lemma create_skipSave_world:
  assumes "p_skipSave p" "fst (create F now w p) = Inr t"
  shows "snd (create F now w p) = w\<lparr>next_id := Suc (next_id w)\<rparr>"
proof -
  from assms(2) have i: "fst (create_try F now w p) = Inr t" by (simp add: create_def)
  then obtain w' where "create_try F now w p = (Inr t, w')" by (cases "create_try F now w p") auto
  with create_try_skipSave_world [OF assms(1) i] show ?thesis by (simp add: create_def)
qed

lemma skipSave_cashback_params [simp]: "p_skipSave (cashback_params cfg t)"
  by (simp add: cashback_params_def)

lemma skipSave_fee_params [simp]: "p_skipSave (fee_params dc)"
  by (simp add: fee_params_def)

lemma resolve_cashback [simp]:
  "resolve_card w (cashback_params cfg t) = Inr (findOne_card_by_id w (debitCard_ref t))"
  by (simp add: resolve_card_def cashback_params_def)

lemma cashback_try_made:
  assumes "cashback_made F cfg w t c"
  shows "cashback_try F cfg now w (Some t) =
     (Inr (cashback_of cfg now w t c),
      w\<lparr>next_id := Suc (next_id w), transactions := transactions w @ [cashback_of cfg now w t c]\<rparr>)"
proof -
  have i: "fst (create F now w (cashback_params cfg t)) = Inr (new_transaction now w (cashback_params cfg t) c)"
    using assms by (simp add: create_skipSave_Inr cashback_made_def)
  from create_skipSave_world [OF _ i]
  have "create F now w (cashback_params cfg t)
      = (Inr (new_transaction now w (cashback_params cfg t) c), w\<lparr>next_id := Suc (next_id w)\<rparr>)"
    using i by (cases "create F now w (cashback_params cfg t)") simp
  then show ?thesis
    using assms by (simp add: cashback_try_def cashback_made_def cashback_of_def save_new_def Let_def)
qed

lemma cashback_try_not_made:
  assumes "\<nexists>c. cashback_made F cfg w t c"
  shows "(\<exists>e. fst (cashback_try F cfg now w (Some t)) = Inl e)
    \<and> transactions (snd (cashback_try F cfg now w (Some t))) = transactions w
    \<and> debitCards (snd (cashback_try F cfg now w (Some t))) = debitCards w"
proof (cases "amount t = 0 \<or> status t \<noteq> ''completed'' \<or> ttype t \<noteq> ''withdrawal''
    \<or> subtype t \<noteq> ''purchase''")
  case True
  then show ?thesis by (auto simp: cashback_try_def)
next
  case checks: False
  obtain r w1 where r: "create F now w (cashback_params cfg t) = (r, w1)"
    by (cases "create F now w (cashback_params cfg t)")
  have st: "transactions w1 = transactions w" "debitCards w1 = debitCards w"
    using create_skipSave [of "cashback_params cfg t" F now w] r by simp_all
  show ?thesis
  proof (cases r)
    case (Inl e)
    with r st checks show ?thesis by (simp add: cashback_try_def)
  next
    case (Inr x)
    with r have i: "fst (create F now w (cashback_params cfg t)) = Inr x" by simp
    then obtain c where c: "validate_create (cashback_params cfg t) = None"
      "findOne_card_by_id w (debitCard_ref t) = Some c" "active c"
      "x = new_transaction now w (cashback_params cfg t) c"
      by (auto simp: create_skipSave_Inr)
    with checks assms have "save_fails F (next_id w)"
      by (auto simp: cashback_made_def)
    with r Inr st checks c(4) show ?thesis
      by (simp add: cashback_try_def save_new_def Let_def)
  qed
qed





lemma createCashbackTransaction_made:
  assumes "cashback_made F cfg w t c"
  shows "createCashbackTransaction F cfg now w (Some t) =
     (Inr (cashback_of cfg now w t c),
      w\<lparr>next_id := Suc (next_id w), transactions := transactions w @ [cashback_of cfg now w t c]\<rparr>)"
  by (simp add: createCashbackTransaction_def cashback_try_made [OF assms])

lemma createCashbackTransaction_not_made:
  assumes "\<nexists>c. cashback_made F cfg w t c"
  shows "(\<exists>e. fst (createCashbackTransaction F cfg now w (Some t)) = Inl e)
    \<and> transactions (snd (createCashbackTransaction F cfg now w (Some t))) = transactions w
    \<and> debitCards (snd (createCashbackTransaction F cfg now w (Some t))) = debitCards w"
proof -
  from cashback_try_not_made [OF assms, of now]
  obtain e where e: "fst (cashback_try F cfg now w (Some t)) = Inl e"
    and s: "transactions (snd (cashback_try F cfg now w (Some t))) = transactions w"
      "debitCards (snd (cashback_try F cfg now w (Some t))) = debitCards w"
    by blast
  have "\<exists>e'. fst (createCashbackTransaction F cfg now w (Some t)) = Inl e'"
    using e by (cases "cashback_try F cfg now w (Some t)")
      (auto simp: createCashbackTransaction_def catch_rethrow_def)
  with s show ?thesis by (simp add: createCashbackTransaction_def)
qed

subsection \<open>One step of the settlement loop\<close>

lemma get_prop_currentbalance [simp]: "get_prop b ''currentbalance'' = None"
  by (simp add: get_prop_def)

lemma floor_never_applies [simp]: "\<not> js_less (js_plus None a) m"
  by (simp add: js_plus_def js_less_def)

lemma persist_completed:
  "(case persist_status F (t\<lparr>status := ''completed''\<rparr>) (b, w) of
      (Inl e, b', w') \<Rightarrow> (b', logger_error ''Error validating transaction'' (Some (tx_id t)) w')
    | (Inr u, b', w') \<Rightarrow> (b', w'))
   = (b, settled_world F t w)"
  by (simp add: persist_status_def updateOne_status_def settled_world_def)

lemma step_plain:
  assumes "\<not> (ttype t = ''withdrawal'' \<and> toUpperCase (vender t) \<in> set CASHBACK_VENDERS)"
  shows "validate_transaction F cfg now t (b, w) =
     (b\<lparr>currentBalance := currentBalance b + amount t\<rparr>, settled_world F t w)"
  using assms
  by (auto simp: validate_transaction_def settle_try_def Let_def persist_completed)

lemma step_cashback_made:
  assumes "ttype t = ''withdrawal''" "toUpperCase (vender t) \<in> set CASHBACK_VENDERS"
    and "cashback_made F cfg w (t\<lparr>status := ''completed''\<rparr>) c"
  shows "validate_transaction F cfg now t (b, w) =
     (b\<lparr>currentBalance := currentBalance b + amount t\<rparr>,
      settled_world F t
        (w\<lparr>next_id := Suc (next_id w),
            transactions := transactions w @ [cashback_of cfg now w (t\<lparr>status := ''completed''\<rparr>) c]\<rparr>))"
  using assms(1,2)
  by (simp add: validate_transaction_def settle_try_def Let_def persist_completed
      createCashbackTransaction_made [OF assms(3)])

lemma step_cashback_not_made:
  assumes "ttype t = ''withdrawal''" "toUpperCase (vender t) \<in> set CASHBACK_VENDERS"
    and "\<nexists>c. cashback_made F cfg w (t\<lparr>status := ''completed''\<rparr>) c"
  shows "validate_transaction F cfg now t (b, w) =
     (b\<lparr>currentBalance := currentBalance b + amount t\<rparr>,
      logger_error ''Error validating transaction'' (Some (tx_id t))
        (snd (createCashbackTransaction F cfg now w (Some (t\<lparr>status := ''completed''\<rparr>)))))"
proof -
  from createCashbackTransaction_not_made [OF assms(3), of now]
  obtain e where "fst (createCashbackTransaction F cfg now w (Some (t\<lparr>status := ''completed''\<rparr>))) = Inl e"
    by blast
  then obtain w1 where "createCashbackTransaction F cfg now w (Some (t\<lparr>status := ''completed''\<rparr>)) = (Inl e, w1)"
    by (cases "createCashbackTransaction F cfg now w (Some (t\<lparr>status := ''completed''\<rparr>))") auto
  with assms(1,2) show ?thesis
    by (simp add: validate_transaction_def settle_try_def Let_def)
qed

lemma settled_world_fields [simp]:
  "transactions (settled_world F t w) =
     (if updateOne_fails F (tx_id t) then transactions w
      else set_status (tx_id t) ''completed'' (transactions w))"
  "debitCards (settled_world F t w) = debitCards w"
  "next_id (settled_world F t w) = next_id w"
  by (simp_all add: settled_world_def)


text \<open>The three ways one step can go.\<close>

lemma step_cases:
  obtains
    (plain) "\<not> (ttype t = ''withdrawal'' \<and> toUpperCase (vender t) \<in> set CASHBACK_VENDERS)"
      "validate_transaction F cfg now t (b, w) =
         (b\<lparr>currentBalance := currentBalance b + amount t\<rparr>, settled_world F t w)"
  | (made) c where "ttype t = ''withdrawal''" "toUpperCase (vender t) \<in> set CASHBACK_VENDERS"
      "cashback_made F cfg w (t\<lparr>status := ''completed''\<rparr>) c"
      "validate_transaction F cfg now t (b, w) =
         (b\<lparr>currentBalance := currentBalance b + amount t\<rparr>,
          settled_world F t
            (w\<lparr>next_id := Suc (next_id w),
                transactions := transactions w @ [cashback_of cfg now w (t\<lparr>status := ''completed''\<rparr>) c]\<rparr>))"
  | (not_made) "ttype t = ''withdrawal''" "toUpperCase (vender t) \<in> set CASHBACK_VENDERS"
      "\<nexists>c. cashback_made F cfg w (t\<lparr>status := ''completed''\<rparr>) c"
      "validate_transaction F cfg now t (b, w) =
         (b\<lparr>currentBalance := currentBalance b + amount t\<rparr>,
          logger_error ''Error validating transaction'' (Some (tx_id t))
            (snd (createCashbackTransaction F cfg now w (Some (t\<lparr>status := ''completed''\<rparr>)))))"
      "transactions (snd (createCashbackTransaction F cfg now w (Some (t\<lparr>status := ''completed''\<rparr>))))
         = transactions w"
      "debitCards (snd (createCashbackTransaction F cfg now w (Some (t\<lparr>status := ''completed''\<rparr>))))
         = debitCards w"
proof (cases "ttype t = ''withdrawal'' \<and> toUpperCase (vender t) \<in> set CASHBACK_VENDERS")
  case False
  then show ?thesis using step_plain [of t F cfg now b w] plain by blast
next
  case True
  show ?thesis
  proof (cases "\<exists>c. cashback_made F cfg w (t\<lparr>status := ''completed''\<rparr>) c")
    case True
    then obtain c where "cashback_made F cfg w (t\<lparr>status := ''completed''\<rparr>) c" ..
    with \<open>ttype t = ''withdrawal'' \<and> _\<close> show ?thesis
      using step_cashback_made [of t F cfg w c now b] made by blast
  next
    case False
    with \<open>ttype t = ''withdrawal'' \<and> _\<close> show ?thesis
      using step_cashback_not_made [of t F cfg w now b]
        createCashbackTransaction_not_made [of F cfg w "t\<lparr>status := ''completed''\<rparr>" now]
        not_made by blast
  qed
qed

lemma findOne_tx_frame_set_status:
  "i \<noteq> j \<Longrightarrow> find (\<lambda>t. tx_id t = i) (set_status j s xs) = find (\<lambda>t. tx_id t = i) xs"
  by (simp add: find_set_status)

lemma find_append_Some:
  "find P xs = Some x \<Longrightarrow> find P (xs @ ys) = Some x"
  by (simp add: find_append_tx)

lemma step_frame:
  assumes "i \<noteq> tx_id t" "findOne_tx w i = Some x"
  shows "findOne_tx (snd (validate_transaction F cfg now t (b, w))) i = Some x"
  using assms
  by (cases rule: step_cases [of t F cfg now b w])
    (auto simp: findOne_tx_def find_set_status find_append_Some)



lemma step_evolves:
  assumes "findOne_tx w (tx_id t) = Some t'" "status t' = ''pending''"
  shows "evolves (transactions w) (transactions (snd (validate_transaction F cfg now t (b, w))))"
proof (cases rule: step_cases [of t F cfg now b w])
  case plain
  then show ?thesis
    using assms evolves_set_status [of "tx_id t" "transactions w" "''completed''"]
    by (auto simp: findOne_tx_def)
next
  case (made c)
  then show ?thesis
    using assms evolves_set_status_append [of "tx_id t" "transactions w" t' "''completed''"]
    by (auto simp: findOne_tx_def)
next
  case not_made
  then show ?thesis by simp
qed




subsection \<open>The loop over one group\<close>


lemma fresh_id:
  "tx_id t \<notin> tx_id ` set xs \<Longrightarrow> x \<in> set xs \<Longrightarrow> tx_id x \<noteq> tx_id t"
  by (metis imageI)

lemma loop_frame:
  assumes "\<forall>t\<in>set ts. tx_id t \<noteq> i" "findOne_tx w i = Some x"
  shows "findOne_tx (snd (validate_transactions F cfg now ts (b, w))) i = Some x"
  using assms
proof (induction ts arbitrary: b w)
  case Nil
  then show ?case by simp
next
  case (Cons t ts)
  obtain b' w' where s: "validate_transaction F cfg now t (b, w) = (b', w')"
    by (cases "validate_transaction F cfg now t (b, w)")
  with step_frame [of i t w x F cfg now b] Cons.prems have "findOne_tx w' i = Some x" by auto
  with Cons.IH [of w' b'] Cons.prems s show ?case by simp
qed



lemma loop_evolves:
  assumes "distinct (map tx_id ts)"
    and "\<forall>t\<in>set ts. \<exists>t'. findOne_tx w (tx_id t) = Some t' \<and> status t' = ''pending''"
  shows "evolves (transactions w) (transactions (snd (validate_transactions F cfg now ts (b, w))))"
  using assms
proof (induction ts arbitrary: b w)
  case Nil
  then show ?case by simp
next
  case (Cons t ts)
  obtain b' w' where s: "validate_transaction F cfg now t (b, w) = (b', w')"
    by (cases "validate_transaction F cfg now t (b, w)")
  from Cons.prems obtain t' where t': "findOne_tx w (tx_id t) = Some t'" "status t' = ''pending''"
    by auto
  from step_evolves [OF t', of F cfg now b] s
  have e1: "evolves (transactions w) (transactions w')" by simp
  have "\<forall>u\<in>set ts. \<exists>u'. findOne_tx w' (tx_id u) = Some u' \<and> status u' = ''pending''"
  proof
    fix u assume u: "u \<in> set ts"
    with Cons.prems obtain u' where u': "findOne_tx w (tx_id u) = Some u'" "status u' = ''pending''"
      by auto
    from u Cons.prems(1) have "tx_id u \<noteq> tx_id t" by (auto dest: fresh_id)
    from step_frame [OF this u'(1), of F cfg now b] s u'(2)
    show "\<exists>u'. findOne_tx w' (tx_id u) = Some u' \<and> status u' = ''pending''" by auto
  qed
  with Cons.IH [of w' b'] Cons.prems(1)
  have "evolves (transactions w') (transactions (snd (validate_transactions F cfg now ts (b', w'))))"
    by simp
  with e1 s show ?case by (auto intro: evolves_trans)
qed











subsection \<open>The overdraft fee\<close>

lemma transactions_save_card [simp]:
  "transactions (snd (save_card F c d w)) = transactions w"
  by (simp add: save_card_def)

lemma fee_store:
  "transactions (snd (createOverdraftFeeTransaction F now w d)) = transactions w
   \<or> (\<exists>f. transactions (snd (createOverdraftFeeTransaction F now w d)) = transactions w @ [f]
        \<and> status f = ''completed''
        \<and> (\<forall>g. fst (createOverdraftFeeTransaction F now w d) = Inr g \<longrightarrow> g = f))"
proof (cases d)
  case None
  then show ?thesis by (simp add: createOverdraftFeeTransaction_def overdraft_try_def)
next
  case (Some dc)
  obtain r w1 where r: "create F now w (fee_params dc) = (r, w1)"
    by (cases "create F now w (fee_params dc)")
  have st: "transactions w1 = transactions w"
    using create_skipSave [of "fee_params dc" F now w] r by simp
  show ?thesis
  proof (cases r)
    case (Inl e)
    with r st Some show ?thesis
      by (simp add: createOverdraftFeeTransaction_def overdraft_try_def)
  next
    case (Inr t)
    show ?thesis
    proof (cases "save_fails F (tx_id t)")
      case True
      with r st Some Inr show ?thesis
        by (simp add: createOverdraftFeeTransaction_def overdraft_try_def save_new_def Let_def)
    next
      case False
      with r st Some Inr
      have "transactions (snd (createOverdraftFeeTransaction F now w d))
            = transactions w @ [t\<lparr>status := ''completed''\<rparr>]
          \<and> (\<forall>g. fst (createOverdraftFeeTransaction F now w d) = Inr g
                \<longrightarrow> g = t\<lparr>status := ''completed''\<rparr>)"
        by (auto simp: createOverdraftFeeTransaction_def overdraft_try_def save_new_def Let_def
            save_card_def split: prod.splits sum.splits if_splits)
      then show ?thesis by auto
    qed
  qed
qed

lemma fee_appends:
  "\<exists>new. transactions (snd (createOverdraftFeeTransaction F now w d)) = transactions w @ new"
  using fee_store [of F now w d] by auto

lemma charge_overdraft_appends:
  "\<exists>new. transactions (charge_overdraft F now dc (b, w)) = transactions w @ new"
proof (cases "overdraft_due now dc b")
  case False
  then show ?thesis by (simp add: charge_overdraft_def)
next
  case True
  obtain r w1 where r: "createOverdraftFeeTransaction F now w (Some dc) = (r, w1)"
    by (cases "createOverdraftFeeTransaction F now w (Some dc)")
  with fee_appends [of F now w "Some dc"] obtain new where "transactions w1 = transactions w @ new"
    by auto
  with True r show ?thesis
    by (cases r) (simp_all add: charge_overdraft_def)
qed

lemma transactions_getBalances [simp]:
  "transactions (snd (getBalances w dc)) = transactions w"
  by (simp add: getBalances_def split: list.splits)

subsection \<open>One group and all groups\<close>

lemma evolves_then_append: "evolves xs ys \<Longrightarrow> evolves xs (ys @ zs)"
  by (rule evolves_trans [of xs ys]) simp_all

lemma group_store:
  "transactions (snd (validate_group F cfg now (cid, ts) w)) = transactions w
   \<or> (\<exists>b w0 new. transactions w0 = transactions w
        \<and> transactions (snd (validate_group F cfg now (cid, ts) w))
            = transactions (snd (validate_transactions F cfg now ts (b, w0))) @ new)"
proof (cases "findOne_card_by_id w cid")
  case None
  then show ?thesis by (simp add: validate_group_def)
next
  case (Some dc)
  obtain r w1 where r: "getBalances w dc = (r, w1)" by (cases "getBalances w dc")
  with transactions_getBalances [of w dc] have st: "transactions w1 = transactions w" by simp
  show ?thesis
  proof (cases r)
    case (Inl e)
    with Some r st show ?thesis by (simp add: validate_group_def)
  next
    case (Inr bal)
    obtain b2 w2 where l: "validate_transactions F cfg now ts (bal, w1) = (b2, w2)"
      by (cases "validate_transactions F cfg now ts (bal, w1)")
    from charge_overdraft_appends [of F now dc b2 w2]
    obtain new where "transactions (charge_overdraft F now dc (b2, w2)) = transactions w2 @ new" ..
    with Some r Inr l
    have "transactions (snd (validate_group F cfg now (cid, ts) w))
        = transactions (snd (validate_transactions F cfg now ts (bal, w1))) @ new"
      by (simp add: validate_group_def)
    with st show ?thesis by blast
  qed
qed

lemma group_evolves:
  assumes "distinct (map tx_id ts)"
    and "\<forall>t\<in>set ts. \<exists>t'. findOne_tx w (tx_id t) = Some t' \<and> status t' = ''pending''"
  shows "evolves (transactions w) (transactions (snd (validate_group F cfg now (cid, ts) w)))"
  using group_store [of F cfg now cid ts w]
proof
  assume "transactions (snd (validate_group F cfg now (cid, ts) w)) = transactions w"
  then show ?thesis by simp
next
  assume "\<exists>b w0 new. transactions w0 = transactions w
        \<and> transactions (snd (validate_group F cfg now (cid, ts) w))
            = transactions (snd (validate_transactions F cfg now ts (b, w0))) @ new"
  then obtain b w0 new where w0: "transactions w0 = transactions w"
    and g: "transactions (snd (validate_group F cfg now (cid, ts) w))
            = transactions (snd (validate_transactions F cfg now ts (b, w0))) @ new"
    by blast
  from assms(2) w0
  have "\<forall>t\<in>set ts. \<exists>t'. findOne_tx w0 (tx_id t) = Some t' \<and> status t' = ''pending''"
    by (simp add: findOne_tx_def)
  from loop_evolves [OF assms(1) this, of F cfg now b]
  show ?thesis unfolding g w0 [symmetric] by (rule evolves_then_append)
qed

lemma findOne_tx_append:
  assumes "findOne_tx w1 i = Some x" "transactions w2 = transactions w1 @ new"
  shows "findOne_tx w2 i = Some x"
  using assms by (simp add: findOne_tx_def find_append_Some)

lemma group_frame:
  assumes "\<forall>t\<in>set ts. tx_id t \<noteq> i" "findOne_tx w i = Some x"
  shows "findOne_tx (snd (validate_group F cfg now (cid, ts) w)) i = Some x"
  using group_store [of F cfg now cid ts w]
proof
  assume "transactions (snd (validate_group F cfg now (cid, ts) w)) = transactions w"
  with assms(2) show ?thesis by (simp add: findOne_tx_def)
next
  assume "\<exists>b w0 new. transactions w0 = transactions w
        \<and> transactions (snd (validate_group F cfg now (cid, ts) w))
            = transactions (snd (validate_transactions F cfg now ts (b, w0))) @ new"
  then obtain b w0 new where w0: "transactions w0 = transactions w"
    and g: "transactions (snd (validate_group F cfg now (cid, ts) w))
            = transactions (snd (validate_transactions F cfg now ts (b, w0))) @ new"
    by blast
  from assms(2) w0 have "findOne_tx w0 i = Some x" by (simp add: findOne_tx_def)
  from loop_frame [OF assms(1) this, of F cfg now b]
  show ?thesis using g by (rule findOne_tx_append)
qed

lemma groups_evolves:
  assumes "distinct (map tx_id (concat (map snd gs)))"
    and "\<forall>t\<in>set (concat (map snd gs)). \<exists>t'. findOne_tx w (tx_id t) = Some t' \<and> status t' = ''pending''"
  shows "evolves (transactions w) (transactions (snd (validate_groups F cfg now gs w)))"
  using assms
proof (induction gs arbitrary: w)
  case Nil
  then show ?case by simp
next
  case (Cons g gs)
  obtain cid ts where g: "g = (cid, ts)" by (cases g)
  obtain r w1 where r: "validate_group F cfg now (cid, ts) w = (r, w1)"
    by (cases "validate_group F cfg now (cid, ts) w")
  from Cons.prems g have d: "distinct (map tx_id ts)"
    and p: "\<forall>t\<in>set ts. \<exists>t'. findOne_tx w (tx_id t) = Some t' \<and> status t' = ''pending''"
    by auto
  from group_evolves [OF d p, of F cfg now cid] r
  have e1: "evolves (transactions w) (transactions w1)" by simp
  show ?case
  proof (cases r)
    case (Inl e)
    with g r e1 show ?thesis by simp
  next
    case (Inr u)
    from Cons.prems(1) g have d2: "distinct (map tx_id (concat (map snd gs)))" by simp
    have "\<forall>t\<in>set (concat (map snd gs)). \<exists>t'. findOne_tx w1 (tx_id t) = Some t' \<and> status t' = ''pending''"
    proof
      fix t assume t: "t \<in> set (concat (map snd gs))"
      with Cons.prems(2) obtain t' where t': "findOne_tx w (tx_id t) = Some t'"
        "status t' = ''pending''" by auto
      from Cons.prems(1) g t have "\<forall>x\<in>set ts. tx_id x \<noteq> tx_id t"
        by (auto simp del: set_concat)
      from group_frame [OF this t'(1), of F cfg now cid] r t'(2)
      show "\<exists>t'. findOne_tx w1 (tx_id t) = Some t' \<and> status t' = ''pending''" by simp
    qed
    from Cons.IH [OF d2 this]
    have "evolves (transactions w1) (transactions (snd (validate_groups F cfg now gs w1)))" .
    with e1 g r Inr show ?thesis by (auto intro: evolves_trans)
  qed
qed

subsection \<open>The whole run\<close>

lemma mset_push_group:
  "mset (concat (map snd (push_group t gs))) = add_mset t (mset (concat (map snd gs)))"
  by (induction t gs rule: push_group.induct) auto

lemma mset_foldl_push_group:
  "mset (concat (map snd (foldl (\<lambda>gs t. push_group t gs) acc txs)))
     = mset (concat (map snd acc)) + mset txs"
  by (induction txs arbitrary: acc) (simp_all add: mset_push_group)

lemma mset_pending_by_card:
  "mset (concat (map snd (pending_by_card w)))
     = mset (filter (\<lambda>t. status t = ''pending'') (transactions w))"
  by (simp add: pending_by_card_def group_by_card_def mset_foldl_push_group)

lemma validatePending_evolves:
  assumes "distinct (map tx_id (transactions w))"
  shows "evolves (transactions w) (transactions (snd (validatePending F cfg now w)))"
proof -
  let ?ps = "filter (\<lambda>t. status t = ''pending'') (transactions w)"
  let ?gs = "pending_by_card w"
  have m: "mset (concat (map snd ?gs)) = mset ?ps" by (rule mset_pending_by_card)
  have "mset (map tx_id (concat (map snd ?gs))) = image_mset tx_id (mset (concat (map snd ?gs)))"
    by simp
  also have "\<dots> = image_mset tx_id (mset ?ps)" by (simp only: m)
  also have "\<dots> = mset (map tx_id ?ps)" by simp
  finally have "distinct (map tx_id (concat (map snd ?gs))) \<longleftrightarrow> distinct (map tx_id ?ps)"
    by (rule mset_eq_imp_distinct_iff)
  moreover from assms have "distinct (map tx_id ?ps)" by (rule distinct_map_filter)
  ultimately have d: "distinct (map tx_id (concat (map snd ?gs)))" by simp
  from m have s: "set (concat (map snd ?gs)) = set ?ps" by (rule mset_eq_setD)
  have p: "\<forall>t\<in>set (concat (map snd ?gs)). \<exists>t'. findOne_tx w (tx_id t) = Some t' \<and> status t' = ''pending''"
  proof
    fix t assume "t \<in> set (concat (map snd ?gs))"
    with s have "t \<in> set (transactions w)" "status t = ''pending''" by auto
    with find_distinct_member [OF assms, of t]
    show "\<exists>t'. findOne_tx w (tx_id t) = Some t' \<and> status t' = ''pending''"
      by (simp add: findOne_tx_def)
  qed
  from groups_evolves [OF d p, of F cfg now]
  show ?thesis
    by (auto simp: validatePending_def split: prod.splits sum.splits)
qed

subsection \<open>cancel\<close>

lemma cancel_not_pending:
  assumes "status t \<noteq> ''pending''"
  shows "cancel F w t =
     (Inl (HandledError ''Transaction cannot be canceled once executed'' 400),
      logger_info (''Error canceling transaction: '' @ ''Transaction cannot be canceled once executed'')
        (Some (tx_id t)) w)"
  using assms by (simp add: cancel_def cancel_try_def)

lemma cancel_evolves:
  assumes "t \<in> set (transactions w)" "distinct (map tx_id (transactions w))"
  shows "evolves (transactions w) (transactions (snd (cancel F w t)))"
proof (cases "status t = ''pending''")
  case False
  then show ?thesis by (simp add: cancel_not_pending)
next
  case True
  from find_distinct_member [OF assms(2,1)]
  have f: "find (\<lambda>x. tx_id x = tx_id t) (transactions w) = Some t" .
  have "evolves (transactions w) (set_status (tx_id t) ''canceled'' (transactions w))"
    by (rule evolves_set_status) (use f True in auto)
  with True show ?thesis
    by (auto simp: cancel_def cancel_try_def save_status_def Let_def)
qed

lemma cancel_pending:
  assumes "t \<in> set (transactions w)" "distinct (map tx_id (transactions w))"
    "status t = ''pending''" "\<not> save_fails F (tx_id t)"
  shows "fst (cancel F w t) = Inr (t\<lparr>status := ''canceled''\<rparr>)
    \<and> findOne_tx (snd (cancel F w t)) (tx_id t) = Some (t\<lparr>status := ''canceled''\<rparr>)"
proof -
  have c: "cancel F w t = (Inr (t\<lparr>status := ''canceled''\<rparr>),
      w\<lparr>transactions := set_status (tx_id t) ''canceled'' (transactions w)\<rparr>)"
    using assms(3,4) by (simp add: cancel_def cancel_try_def save_status_def Let_def)
  have "find (\<lambda>x. tx_id x = tx_id t) (set_status (tx_id t) ''canceled'' (transactions w))
      = map_option (\<lambda>t. t\<lparr>status := ''canceled''\<rparr>) (find (\<lambda>x. tx_id x = tx_id t) (transactions w))"
    by (simp add: find_set_status)
  also have "\<dots> = Some (t\<lparr>status := ''canceled''\<rparr>)"
    by (simp only: find_distinct_member [OF assms(2,1)] option.map)
  finally show ?thesis by (simp add: c findOne_tx_def)
qed

lemma cashback_store:
  "transactions (snd (createCashbackTransaction F cfg now w tr)) = transactions w
   \<or> (\<exists>c. transactions (snd (createCashbackTransaction F cfg now w tr)) = transactions w @ [c]
        \<and> status c = ''completed'')"
proof (cases tr)
  case None
  then show ?thesis by (simp add: createCashbackTransaction_def cashback_try_def)
next
  case (Some t)
  show ?thesis
  proof (cases "\<exists>c. cashback_made F cfg w t c")
    case True
    then obtain c where "cashback_made F cfg w t c" ..
    from createCashbackTransaction_made [OF this, of now] Some
    show ?thesis by (simp add: cashback_of_def)
  next
    case False
    from createCashbackTransaction_not_made [OF this, of now] Some
    show ?thesis by simp
  qed
qed

text \<open>In a store that evolved, a transaction that was not pending is unchanged.\<close>

lemma evolves_terminal_kept:
  assumes "evolves xs ys" "i < length xs" "status (xs ! i) \<noteq> ''pending''"
  shows "ys ! i = xs ! i"
proof -
  from assms(1,2) have "forward (xs ! i) (take (length xs) ys ! i)"
    by (auto simp: evolves_def dest: list_all2_nthD)
  with assms(2,3) show ?thesis by (simp add: forward_def)
qed

text \<open>
  C9. \<open>cancel\<close> on a transaction of a store with distinct ids lets the store evolve: it
  changes no status but that of a pending transaction, to \<open>canceled\<close>; on a transaction
  that is not pending it fails with code 400 and stores nothing. A run of
  \<open>validatePending\<close> on a store with distinct ids lets the store evolve. The fee and the
  cashback methods change no stored transaction: they store nothing or append the one new
  transaction, with status \<open>completed\<close>.
\<close>

theorem status_only_moves_forward:
  "(t \<in> set (transactions w) \<and> distinct (map tx_id (transactions w))
      \<longrightarrow> evolves (transactions w) (transactions (snd (cancel F w t))))
   \<and> (status t \<noteq> ''pending''
      \<longrightarrow> fst (cancel F w t)
            = Inl (HandledError ''Transaction cannot be canceled once executed'' 400)
          \<and> transactions (snd (cancel F w t)) = transactions w)
   \<and> (t \<in> set (transactions w) \<and> distinct (map tx_id (transactions w))
        \<and> status t = ''pending'' \<and> \<not> save_fails F (tx_id t)
      \<longrightarrow> fst (cancel F w t) = Inr (t\<lparr>status := ''canceled''\<rparr>)
          \<and> findOne_tx (snd (cancel F w t)) (tx_id t) = Some (t\<lparr>status := ''canceled''\<rparr>))
   \<and> (distinct (map tx_id (transactions w))
      \<longrightarrow> evolves (transactions w) (transactions (snd (validatePending F cfg now w))))
   \<and> (transactions (snd (createOverdraftFeeTransaction F now w d)) = transactions w
      \<or> (\<exists>f. transactions (snd (createOverdraftFeeTransaction F now w d)) = transactions w @ [f]
           \<and> status f = ''completed''))
   \<and> (transactions (snd (createCashbackTransaction F cfg now w tr)) = transactions w
      \<or> (\<exists>c. transactions (snd (createCashbackTransaction F cfg now w tr)) = transactions w @ [c]
           \<and> status c = ''completed''))"
proof -
  have a: "t \<in> set (transactions w) \<and> distinct (map tx_id (transactions w))
      \<longrightarrow> evolves (transactions w) (transactions (snd (cancel F w t)))"
    using cancel_evolves [of t w F] by blast
  have b: "status t \<noteq> ''pending''
      \<longrightarrow> fst (cancel F w t)
            = Inl (HandledError ''Transaction cannot be canceled once executed'' 400)
          \<and> transactions (snd (cancel F w t)) = transactions w"
    by (simp add: cancel_not_pending)
  have c: "t \<in> set (transactions w) \<and> distinct (map tx_id (transactions w))
        \<and> status t = ''pending'' \<and> \<not> save_fails F (tx_id t)
      \<longrightarrow> fst (cancel F w t) = Inr (t\<lparr>status := ''canceled''\<rparr>)
          \<and> findOne_tx (snd (cancel F w t)) (tx_id t) = Some (t\<lparr>status := ''canceled''\<rparr>)"
    using cancel_pending [of t w F] by blast
  have d: "distinct (map tx_id (transactions w))
      \<longrightarrow> evolves (transactions w) (transactions (snd (validatePending F cfg now w)))"
    using validatePending_evolves [of w F cfg now] by blast
  have e: "transactions (snd (createOverdraftFeeTransaction F now w d)) = transactions w
      \<or> (\<exists>f. transactions (snd (createOverdraftFeeTransaction F now w d)) = transactions w @ [f]
           \<and> status f = ''completed'')"
    using fee_store [of F now w d] by blast
  note f = cashback_store [of F cfg now w tr]
  from a b c d e f show ?thesis by (intro conjI)
qed

theorem status_only_moves_forward_witness:
  "evolves (transactions world_group)
     (transactions (snd (cancel no_faults world_group (purchase 2 (- 30) ''SHOP''))))
   \<and> findOne_tx (snd (cancel no_faults world_group (purchase 2 (- 30) ''SHOP''))) 2
       = Some ((purchase 2 (- 30) ''SHOP'')\<lparr>status := ''canceled''\<rparr>)
   \<and> fst (cancel no_faults world_funded credit_100)
       = Inl (HandledError ''Transaction cannot be canceled once executed'' 400)
   \<and> evolves (transactions world_purchase)
       (transactions (snd (validatePending no_faults default_config 5000 world_purchase)))"
proof -
  have h: "purchase 2 (- 30) ''SHOP'' \<in> set (transactions world_group)
      \<and> distinct (map tx_id (transactions world_group))
      \<and> status (purchase 2 (- 30) ''SHOP'') = ''pending''
      \<and> \<not> save_fails no_faults (tx_id (purchase 2 (- 30) ''SHOP''))"
    by code_simp
  note g = status_only_moves_forward [of "purchase 2 (- 30) ''SHOP''" world_group no_faults
      default_config 5000 None None]
  from g h have a: "evolves (transactions world_group)
     (transactions (snd (cancel no_faults world_group (purchase 2 (- 30) ''SHOP''))))"
    by blast
  from g h have "findOne_tx (snd (cancel no_faults world_group (purchase 2 (- 30) ''SHOP'')))
      (tx_id (purchase 2 (- 30) ''SHOP'')) = Some ((purchase 2 (- 30) ''SHOP'')\<lparr>status := ''canceled''\<rparr>)"
    by blast
  then have b: "findOne_tx (snd (cancel no_faults world_group (purchase 2 (- 30) ''SHOP''))) 2
       = Some ((purchase 2 (- 30) ''SHOP'')\<lparr>status := ''canceled''\<rparr>)"
    by (simp add: purchase_def)
  have "status credit_100 \<noteq> ''pending''" by (simp add: credit_100_def)
  with status_only_moves_forward [of credit_100 world_funded no_faults default_config 5000 None None]
  have c: "fst (cancel no_faults world_funded credit_100)
       = Inl (HandledError ''Transaction cannot be canceled once executed'' 400)"
    by blast
  have "distinct (map tx_id (transactions world_purchase))" by code_simp
  with status_only_moves_forward [of credit_100 world_purchase no_faults default_config 5000 None None]
  have d: "evolves (transactions world_purchase)
       (transactions (snd (validatePending no_faults default_config 5000 world_purchase)))"
    by blast
  from a b c d show ?thesis by (intro conjI)
qed

end
